theory Spec2Isabelle
  imports Main "HOL-Library.Sublist" "HOL-Library.AList"
begin

section \<open>Python values used by the program\<close>

subsection \<open>Strings\<close>

text \<open>
  A Python \<open>str\<close> is a sequence of Unicode code points: \<open>len\<close> counts code points and
  the emoji of the program's messages are single code points. A string is therefore a
  list of code points; \<open>ascii\<close> reads an ASCII literal.
\<close>

type_synonym pystr = "nat list"

definition ascii :: "string \<Rightarrow> pystr" where
  "ascii s = map of_char s"

text \<open>
  \<open>str.lower\<close>, \<open>str.isdigit\<close> and \<open>repr\<close> consult Python's Unicode character
  database, which is not part of the repository. On ASCII code points their result is
  fixed and written out below; beyond ASCII the database is a parameter of the model:
  \<^item> \<open>lower_at db s i\<close> is the lower-case mapping of the non-ASCII code point at
    index \<open>i\<close> of \<open>s\<close> (one to three code points; the string is given because the
    mapping of U+03A3 depends on its neighbours);
  \<^item> \<open>digit_beyond_ascii db c\<close> tells whether the non-ASCII code point \<open>c\<close> is a digit;
  \<^item> \<open>repr_of_str db s\<close> is \<open>repr(s)\<close>, the quoted and escaped form of \<open>s\<close>.
\<close>

record unicode_db =
  lower_at :: "pystr \<Rightarrow> nat \<Rightarrow> pystr"
  digit_beyond_ascii :: "nat \<Rightarrow> bool"
  repr_of_str :: "pystr \<Rightarrow> pystr"

text \<open>
  On ASCII strings the database is never consulted. To evaluate the model on such
  strings any database does; this one leaves a non-ASCII code point as it is, counts none
  as a digit and quotes a string without escaping.
\<close>

definition ascii_db :: unicode_db where
  "ascii_db =
     \<lparr>lower_at = (\<lambda>s i. [s ! i]), digit_beyond_ascii = (\<lambda>c. False),
      repr_of_str = (\<lambda>s. [39] @ s @ [39])\<rparr>"

definition ascii_lower :: "nat \<Rightarrow> nat" where
  "ascii_lower c = (if 65 \<le> c \<and> c \<le> 90 then c + 32 else c)"

fun lower_from :: "unicode_db \<Rightarrow> pystr \<Rightarrow> nat \<Rightarrow> pystr \<Rightarrow> pystr" where
  "lower_from db s i [] = []"
| "lower_from db s i (c # cs) =
     (if c < 128 then [ascii_lower c] else lower_at db s i) @ lower_from db s (Suc i) cs"

definition str_lower :: "unicode_db \<Rightarrow> pystr \<Rightarrow> pystr" where
  "str_lower db s = lower_from db s 0 s"

definition isdigit :: "unicode_db \<Rightarrow> nat \<Rightarrow> bool" where
  "isdigit db c = (if c < 128 then 48 \<le> c \<and> c \<le> 57 else digit_beyond_ascii db c)"

text \<open>The code points \<open>str.strip()\<close> removes: those for which \<open>str.isspace\<close> holds.\<close>

definition isspace :: "nat \<Rightarrow> bool" where
  "isspace c =
     ((9 \<le> c \<and> c \<le> 13) \<or> (28 \<le> c \<and> c \<le> 32) \<or> c = 133 \<or> c = 160 \<or> c = 5760
      \<or> (8192 \<le> c \<and> c \<le> 8202) \<or> c = 8232 \<or> c = 8233 \<or> c = 8239 \<or> c = 8287
      \<or> c = 12288)"

definition str_strip :: "pystr \<Rightarrow> pystr" where
  "str_strip s = rev (dropWhile isspace (rev (dropWhile isspace s)))"

text \<open>\<open>s.split(sep)\<close> for a separator of one code point: never an empty list.\<close>

fun str_split :: "nat \<Rightarrow> pystr \<Rightarrow> pystr list" where
  "str_split sep [] = [[]]"
| "str_split sep (c # cs) =
     (if c = sep then [] # str_split sep cs
      else (case str_split sep cs of
              [] \<Rightarrow> [[c]]
            | w # ws \<Rightarrow> (c # w) # ws))"

fun str_join :: "pystr \<Rightarrow> pystr list \<Rightarrow> pystr" where
  "str_join sep [] = []"
| "str_join sep [x] = x"
| "str_join sep (x # y # ys) = x @ sep @ str_join sep (y # ys)"

text \<open>\<open>w in s\<close> on strings: \<open>w\<close> occurs in \<open>s\<close> as a contiguous run.\<close>

fun str_contains :: "pystr \<Rightarrow> pystr \<Rightarrow> bool" where
  "str_contains w [] = (w = [])"
| "str_contains w (c # cs) = (prefix w (c # cs) \<or> str_contains w cs)"

text \<open>\<open>str(n)\<close> for an integer, as an f-string prints it.\<close>

fun str_nat :: "nat \<Rightarrow> pystr" where
  "str_nat n = (if n < 10 then [48 + n] else str_nat (n div 10) @ [48 + n mod 10])"

definition str_int :: "int \<Rightarrow> pystr" where
  "str_int i = (if i < 0 then 45 # str_nat (nat (- i)) else str_nat (nat i))"

subsection \<open>Errors\<close>

datatype py_error =
    KeyError
  | AttributeError
  | TypeError
  | UnicodeEncodeError
  | ValueError pystr

section \<open>The tool functions of app.py\<close>

subsection \<open>The shared student profile\<close>

text \<open>
  \<open>st.session_state.student_data\<close> is a dict, created empty by the script and written
  only by the tools below. A dict keeps its keys in insertion order (which \<open>str\<close> of a
  dict shows), so it is an association list: \<open>AList.update\<close> overwrites the value of a
  key in place and appends a new key at the end, as \<open>d[k] = v\<close> does.
\<close>

record project =
  title :: pystr
  desc :: pystr

datatype pyval =
    Str pystr
  | StrList "pystr list"
  | Projects "project list"

type_synonym student_data = "(pystr \<times> pyval) list"

definition dict_get :: "student_data \<Rightarrow> pystr \<Rightarrow> pyval option" where
  "dict_get d k = map_of d k"

definition dict_set :: "student_data \<Rightarrow> pystr \<Rightarrow> pyval \<Rightarrow> student_data" where
  "dict_set d k v = AList.update k v d"

definition has_key :: "student_data \<Rightarrow> pystr \<Rightarrow> bool" where
  "has_key d k = (k \<in> fst ` set d)"

subsection \<open>str of a list and of the profile dict\<close>

definition str_list :: "unicode_db \<Rightarrow> pystr list \<Rightarrow> pystr" where
  "str_list db xs = ascii ''['' @ str_join (ascii '', '') (map (repr_of_str db) xs) @ ascii '']''"

definition str_project :: "unicode_db \<Rightarrow> project \<Rightarrow> pystr" where
  "str_project db p =
     ascii ''{'' @ repr_of_str db (ascii ''title'') @ ascii '': '' @ repr_of_str db (title p)
     @ ascii '', '' @ repr_of_str db (ascii ''desc'') @ ascii '': '' @ repr_of_str db (desc p)
     @ ascii ''}''"

fun str_pyval :: "unicode_db \<Rightarrow> pyval \<Rightarrow> pystr" where
  "str_pyval db (Str s) = repr_of_str db s"
| "str_pyval db (StrList xs) = str_list db xs"
| "str_pyval db (Projects ps) =
     ascii ''['' @ str_join (ascii '', '') (map (str_project db) ps) @ ascii '']''"

definition str_dict :: "unicode_db \<Rightarrow> student_data \<Rightarrow> pystr" where
  "str_dict db d =
     ascii ''{''
     @ str_join (ascii '', '') (map (\<lambda>(k, v). repr_of_str db k @ ascii '': '' @ str_pyval db v) d)
     @ ascii ''}''"

subsection \<open>ProfileBot's tools\<close>

text \<open>
  A tool that writes the profile takes the dict and returns it updated, next to the
  string it returns to the model. The operations that can raise are the subscript
  \<open>student_data[k]\<close> read back by \<open>save_skills\<close> and \<open>save_project\<close> (KeyError on
  a missing key) and the method \<open>.append\<close> of what is stored under \<open>'projects'\<close>
  (AttributeError unless it is a list).
\<close>

definition save_branch :: "pystr \<Rightarrow> student_data \<Rightarrow> pystr \<times> student_data" where
  "save_branch branch d =
     ([9989] @ ascii '' Branch saved: '' @ branch, dict_set d (ascii ''branch'') (Str branch))"

definition save_skills ::
  "unicode_db \<Rightarrow> pystr \<Rightarrow> student_data \<Rightarrow> py_error + pystr \<times> student_data" where
  "save_skills db skills d =
     (let d' = dict_set d (ascii ''skills'') (StrList (map str_strip (str_split 44 skills)))
      in case dict_get d' (ascii ''skills'') of
           None \<Rightarrow> Inl KeyError
         | Some v \<Rightarrow> Inr ([9989] @ ascii '' Skills saved: '' @ str_pyval db v, d'))"

definition save_project ::
  "pystr \<Rightarrow> pystr \<Rightarrow> student_data \<Rightarrow> py_error + pystr \<times> student_data" where
  "save_project ttl description d =
     (let d1 = (if \<not> has_key d (ascii ''projects'')
                then dict_set d (ascii ''projects'') (Projects [])
                else d)
      in case dict_get d1 (ascii ''projects'') of
           None \<Rightarrow> Inl KeyError
         | Some (Projects ps) \<Rightarrow>
             Inr ([9989] @ ascii '' Project added: '' @ ttl,
                  dict_set d1 (ascii ''projects'')
                    (Projects (ps @ [\<lparr>title = ttl, desc = description\<rparr>])))
         | Some _ \<Rightarrow> Inl AttributeError)"

definition get_profile :: "unicode_db \<Rightarrow> student_data \<Rightarrow> pystr" where
  "get_profile db d = (if d \<noteq> [] then str_dict db d else ascii ''No data yet.'')"

subsection \<open>ReviewerBot's tools\<close>

definition HOT_SKILLS :: "pystr list" where
  "HOT_SKILLS =
     [ascii ''python'', ascii ''react'', ascii ''machine learning'', ascii ''aws'',
      ascii ''docker'', ascii ''kubernetes'', ascii ''typescript'', ascii ''golang'']"

definition high_demand :: "pystr \<Rightarrow> pystr" where
  "high_demand skill =
     [128293] @ ascii '' '' @ [39] @ skill @ [39] @ ascii '' is HIGH DEMAND in 2024-25!''"

definition generic_suggestion :: "pystr \<Rightarrow> pystr" where
  "generic_suggestion skill =
     [39] @ skill @ [39]
     @ ascii '' is useful but consider adding trending skills like Python, React, or AWS.''"

definition check_skill_demand :: "unicode_db \<Rightarrow> pystr \<Rightarrow> pystr" where
  "check_skill_demand db skill =
     (if str_lower db skill \<in> set HOT_SKILLS then high_demand skill
      else generic_suggestion skill)"

definition action_verbs :: "pystr list" where
  "action_verbs =
     [ascii ''built'', ascii ''developed'', ascii ''created'', ascii ''implemented'',
      ascii ''designed'']"

definition too_short :: pystr where
  "too_short = ascii ''Too short - add more details''"

definition no_action_verb :: pystr where
  "no_action_verb = ascii ''Use action verbs (built, developed, created)''"

definition no_metrics :: pystr where
  "no_metrics = ascii ''Add metrics/numbers (e.g., '50% faster', '1000 users')''"

definition looks_strong :: pystr where
  "looks_strong = [9989] @ ascii '' Project description looks strong!''"

definition analyze_project :: "unicode_db \<Rightarrow> pystr \<Rightarrow> pystr \<Rightarrow> pystr" where
  "analyze_project db ttl description =
     (let issues0 = [];
          issues1 = (if length description < 20 then issues0 @ [too_short] else issues0);
          issues2 = (if \<not> list_ex (\<lambda>word. str_contains word (str_lower db description))
                             action_verbs
                     then issues1 @ [no_action_verb] else issues1);
          issues3 = (if \<not> list_ex (isdigit db) description
                     then issues2 @ [no_metrics] else issues2)
      in if issues3 \<noteq> []
         then [9888, 65039] @ ascii '' Improvements needed: '' @ str_join (ascii '', '') issues3
         else looks_strong)"

subsection \<open>CoachBot's tools\<close>

definition TRENDS :: "(pystr \<times> pystr) list" where
  "TRENDS =
     [(ascii ''cse'',
       [128640] @ ascii '' AI/ML, Cloud Computing, Cybersecurity are hot. Remote work is common. Focus on DSA + System Design.''),
      (ascii ''ece'',
       [128225] @ ascii '' IoT, Embedded Systems, 5G. Hardware + Software hybrid roles are growing. Learn Python for automation.''),
      (ascii ''mechanical'',
       [9889] @ ascii '' EV industry is booming. CAD/CAM + Python automation highly valued. Consider robotics.''),
      (ascii ''civil'',
       [127959, 65039] @ ascii '' Sustainable construction, BIM software. Green building certifications help stand out.''),
      (ascii ''electrical'',
       [128267] @ ascii '' Renewable energy, Power Electronics, Smart Grid. Python + MATLAB are useful.'')]"

definition get_industry_trends :: "unicode_db \<Rightarrow> pystr \<Rightarrow> pystr" where
  "get_industry_trends db branch =
     (case map_of TRENDS (str_lower db branch) of
        Some t \<Rightarrow> t
      | None \<Rightarrow> ascii ''Focus on interdisciplinary skills + coding basics. Python is universal.'')"

definition suggest_certifications :: "unicode_db \<Rightarrow> pystr \<Rightarrow> pystr" where
  "suggest_certifications db skills =
     (let skills_lower = str_lower db skills;
          certs0 = [];
          certs1 = (if str_contains (ascii ''python'') skills_lower
                    then certs0 @ [ascii ''Google Professional ML Engineer''] else certs0);
          certs2 = (if str_contains (ascii ''cloud'') skills_lower
                       \<or> str_contains (ascii ''aws'') skills_lower
                    then certs1 @ [ascii ''AWS Solutions Architect''] else certs1);
          certs3 = (if str_contains (ascii ''react'') skills_lower
                       \<or> str_contains (ascii ''frontend'') skills_lower
                    then certs2 @ [ascii ''Meta Front-End Developer''] else certs2);
          certs4 = (if str_contains (ascii ''data'') skills_lower
                    then certs3 @ [ascii ''Google Data Analytics Certificate''] else certs3);
          certs5 = (if certs4 = []
                    then certs4 @ [ascii ''Google IT Support Certificate (good starting point)'']
                    else certs4)
      in [128220] @ ascii '' Recommended: '' @ str_join (ascii '', '') certs5)"

subsection \<open>Calling the tools\<close>

text \<open>
  The agent SDK calls a tool with the arguments the hosted model chose, and the quick
  actions of the page call the tools directly. \<open>tool_call\<close> lists the calls with string
  arguments; \<open>call_tools\<close> makes one call after the other on the profile and stops at
  the first exception.
\<close>

datatype tool_call =
    Call_save_branch pystr
  | Call_save_skills pystr
  | Call_save_project pystr pystr
  | Call_get_profile
  | Call_check_skill_demand pystr
  | Call_analyze_project pystr pystr
  | Call_get_industry_trends pystr
  | Call_suggest_certifications pystr

fun call_tool ::
  "unicode_db \<Rightarrow> tool_call \<Rightarrow> student_data \<Rightarrow> py_error + pystr \<times> student_data" where
  "call_tool db (Call_save_branch branch) d = Inr (save_branch branch d)"
| "call_tool db (Call_save_skills skills) d = save_skills db skills d"
| "call_tool db (Call_save_project ttl description) d = save_project ttl description d"
| "call_tool db Call_get_profile d = Inr (get_profile db d, d)"
| "call_tool db (Call_check_skill_demand skill) d = Inr (check_skill_demand db skill, d)"
| "call_tool db (Call_analyze_project ttl description) d =
     Inr (analyze_project db ttl description, d)"
| "call_tool db (Call_get_industry_trends branch) d = Inr (get_industry_trends db branch, d)"
| "call_tool db (Call_suggest_certifications skills) d =
     Inr (suggest_certifications db skills, d)"

fun call_tools ::
  "unicode_db \<Rightarrow> tool_call list \<Rightarrow> student_data \<Rightarrow> py_error + pystr list \<times> student_data" where
  "call_tools db [] d = Inr ([], d)"
| "call_tools db (c # cs) d =
     (case call_tool db c d of
        Inl e \<Rightarrow> Inl e
      | Inr (out, d') \<Rightarrow>
          (case call_tools db cs d' of
             Inl e \<Rightarrow> Inl e
           | Inr (outs, d'') \<Rightarrow> Inr (out # outs, d'')))"

text \<open>
  The projects of a profile: none before the first \<open>save_project\<close>, and \<open>None\<close> for a
  dict that holds something else than a list of projects under \<open>'projects'\<close>, which
  the tools never store.
\<close>

definition projects_of :: "student_data \<Rightarrow> project list option" where
  "projects_of d =
     (case dict_get d (ascii ''projects'') of
        None \<Rightarrow> Some []
      | Some (Projects ps) \<Rightarrow> Some ps
      | Some _ \<Rightarrow> None)"

section \<open>utils.py\<close>



subsection \<open>Finding the project id in a service-account file\<close>






subsection \<open>Setting up the environment\<close>








subsection \<open>The session service and the events of a turn\<close>

text \<open>
  The session service, the runner and the event classes belong to the agent SDK, not to
  the repository; the model keeps of them what \<open>utils.py\<close> does with them.

  \<open>sessions\<close> are the keys (app name, user id, session id) of the sessions the in-memory
  service holds: \<open>get_session\<close> returns \<open>None\<close> for a key it does not hold and does not
  raise, \<open>create_session\<close> adds one. \<open>submitted\<close> records the calls of
  \<open>runner.run_async\<close> in the order they are made, each with the session it addresses
  and the message it submits.
\<close>

type_synonym session_key = "pystr \<times> pystr \<times> pystr"

record sdk =
  sessions :: "session_key list"
  submitted :: "(session_key \<times> pystr) list"

definition get_session :: "sdk \<Rightarrow> session_key \<Rightarrow> session_key option" where
  "get_session sv k = find (\<lambda>k'. k' = k) (sessions sv)"

definition create_session :: "sdk \<Rightarrow> session_key \<Rightarrow> sdk" where
  "create_session sv k = sv\<lparr>sessions := sessions sv @ [k]\<rparr>"

definition run_async :: "sdk \<Rightarrow> session_key \<Rightarrow> pystr \<Rightarrow> sdk" where
  "run_async sv k message = sv\<lparr>submitted := submitted sv @ [(k, message)]\<rparr>"

text \<open>
  An event of the runner's stream, as \<open>_run_agent\<close> reads it.

  For the content the code tests \<open>hasattr(event, 'content') and event.content\<close>, which
  is false for a missing attribute and for one that holds \<open>None\<close>: \<open>None\<close> stands for
  both. For the parts it tests \<open>hasattr(event.content, 'parts')\<close> alone and then
  iterates \<open>event.content.parts\<close>: an attribute that holds \<open>None\<close> (what the SDK's
  \<open>Content\<close> has when no parts are given) passes the test and makes the \<open>for\<close> raise
  TypeError, so the three cases are kept apart.

  For the function call and the text of a part \<open>None\<close> again stands for a missing
  attribute and for one that holds \<open>None\<close>. A function call is an object and counts as
  true; a text counts as true when it is not empty.
\<close>

record function_call =
  call_name :: pystr
  call_args :: "(pystr \<times> pystr) list"

record part =
  part_function_call :: "function_call option"
  part_text :: "pystr option"

datatype 'a attribute = Missing | Holds_None | Holds 'a

record content =
  parts :: "part list attribute"

record event =
  event_content :: "content option"

subsection \<open>The Agent class\<close>

datatype tool =
    Save_branch
  | Save_skills
  | Save_project
  | Get_profile
  | Check_skill_demand
  | Analyze_project
  | Get_industry_trends
  | Suggest_certifications

text \<open>
  The fields of an \<open>Agent\<close>. \<open>self_id\<close> is \<open>id(self)\<close>, which Python fixes when the
  object is made and never changes. The SDK objects \<open>_agent\<close> and \<open>_runner\<close> are built
  from the other fields and never reassigned.
\<close>

record agent =
  name :: pystr
  model_name :: pystr
  system_instruction :: pystr
  tools :: "tool list"
  session_created :: bool
  user_id :: pystr
  session_id :: pystr
  self_id :: nat


definition app_name :: pystr where
  "app_name = ascii ''resume_guide''"


text \<open>
  The methods below run on an agent, that is after \<open>__init__\<close> has stored a session
  service in the class attribute; nothing resets the attribute, so they take the SDK
  state itself and return it updated. Where \<open>get_session\<close> raises, the handler creates
  the session as the branch for \<open>None\<close> does; the in-memory service does not raise.
\<close>

definition session_key_of :: "agent \<Rightarrow> session_key" where
  "session_key_of a = (app_name, user_id a, session_id a)"

definition ensure_session_async :: "agent \<Rightarrow> sdk \<Rightarrow> agent \<times> sdk" where
  "ensure_session_async a sv =
     (if session_created a then (a, sv)
      else (a\<lparr>session_created := True\<rparr>,
            case get_session sv (session_key_of a) of
              None \<Rightarrow> create_session sv (session_key_of a)
            | Some session \<Rightarrow> sv))"

text \<open>The body of the loop over \<open>event.content.parts\<close>: the new \<open>final_response\<close>.\<close>

definition on_part :: "pystr \<Rightarrow> part \<Rightarrow> pystr" where
  "on_part final_response p =
     (case part_function_call p of
        Some fc \<Rightarrow> final_response
      | None \<Rightarrow>
          (case part_text p of
             None \<Rightarrow> final_response
           | Some t \<Rightarrow> if t \<noteq> [] then t else final_response))"

text \<open>
  The body of the loop over the events. Its second half, the loop over
  \<open>event.actions or []\<close>, only prints.
\<close>

definition on_event :: "pystr \<Rightarrow> event \<Rightarrow> py_error + pystr" where
  "on_event final_response ev =
     (case event_content ev of
        None \<Rightarrow> Inr final_response
      | Some c \<Rightarrow>
          (case parts c of
             Missing \<Rightarrow> Inr final_response
           | Holds_None \<Rightarrow> Inl TypeError
           | Holds ps \<Rightarrow> Inr (foldl on_part final_response ps)))"

text \<open>The loop over the events: an exception ends it.\<close>

fun on_events :: "pystr \<Rightarrow> event list \<Rightarrow> py_error + pystr" where
  "on_events final_response [] = Inr final_response"
| "on_events final_response (ev # evs) =
     (case on_event final_response ev of
        Inl e \<Rightarrow> Inl e
      | Inr final_response' \<Rightarrow> on_events final_response' evs)"

definition no_response :: pystr where
  "no_response = ascii ''No response generated.''"

text \<open>
  \<open>_run_agent\<close>. \<open>events\<close> is the stream the runner yields for this turn; what the hosted
  model puts into it is not the program's to decide. The result is the string returned
  or the exception raised; the agent and the SDK state are as the method leaves them in
  either case.
\<close>

definition run_agent ::
  "agent \<Rightarrow> pystr \<Rightarrow> event list \<Rightarrow> sdk \<Rightarrow> (agent \<times> sdk) \<times> (py_error + pystr)" where
  "run_agent a message events sv =
     (case ensure_session_async a sv of (a1, sv1) \<Rightarrow>
        (let final_response = [];
             sv2 = run_async sv1 (session_key_of a1) message
         in ((a1, sv2),
             case on_events final_response events of
               Inl e \<Rightarrow> Inl e
             | Inr final_response \<Rightarrow>
                 Inr (if final_response \<noteq> [] then final_response else no_response))))"

text \<open>
  \<open>chat\<close>. The image, when one is given, is read and dropped. Each branch of the
  event-loop bridge returns \<open>loop.run_until_complete(self._run_agent(message))\<close>; how
  the loop is obtained is outside the model. \<open>chat\<close> catches RuntimeError only, so a
  TypeError of \<open>_run_agent\<close> leaves it.
\<close>

definition chat ::
  "agent \<Rightarrow> pystr \<Rightarrow> event list \<Rightarrow> sdk \<Rightarrow> (agent \<times> sdk) \<times> (py_error + pystr)" where
  "chat a message events sv = run_agent a message events sv"

text \<open>
  \<open>clear_memory\<close>. \<open>hash\<close> is Python's hash of a string: salted when the process
  starts and a fixed function from then on, so it is a parameter.
\<close>

definition clear_memory :: "(pystr \<Rightarrow> int) \<Rightarrow> agent \<Rightarrow> agent" where
  "clear_memory hash a =
     a\<lparr>session_id :=
         ascii ''session_'' @ name a @ ascii ''_'' @ str_nat (self_id a) @ ascii ''_''
         @ str_int (hash (str_nat (self_id a))),
       session_created := False\<rparr>"

subsection \<open>Notions the properties are stated in\<close>

text \<open>
  The parts of a stream, event by event in stream order; the text of a part (\<open>None\<close>
  read as no text); a text-bearing part, one with a non-empty text; a part whose text
  the loop reads, a text-bearing part without a function call; and an event whose
  content holds \<open>None\<close> for its parts.
\<close>

definition event_parts :: "event \<Rightarrow> part list" where
  "event_parts ev =
     (case event_content ev of
        None \<Rightarrow> []
      | Some c \<Rightarrow> (case parts c of Holds ps \<Rightarrow> ps | _ \<Rightarrow> []))"

definition stream_parts :: "event list \<Rightarrow> part list" where
  "stream_parts events = concat (map event_parts events)"

definition text_of :: "part \<Rightarrow> pystr" where
  "text_of p = (case part_text p of None \<Rightarrow> [] | Some t \<Rightarrow> t)"

definition text_bearing :: "part \<Rightarrow> bool" where
  "text_bearing p = (text_of p \<noteq> [])"

definition plain_text :: "part \<Rightarrow> bool" where
  "plain_text p = (part_function_call p = None \<and> text_bearing p)"

text \<open>
  The data fields of a part of the SDK are a one-of: a part carries a function call or
  a text or another kind of data, never a function call together with a text.
\<close>

definition one_kind :: "part \<Rightarrow> bool" where
  "one_kind p = (part_function_call p = None \<or> part_text p = None)"

definition parts_none :: "event \<Rightarrow> bool" where
  "parts_none ev =
     (case event_content ev of
        None \<Rightarrow> False
      | Some c \<Rightarrow> (case parts c of Holds_None \<Rightarrow> True | _ \<Rightarrow> False))"

text \<open>
  What a turn returns when its loop runs to the end, and what \<open>chat\<close> does on a stream:
  the loop raises at the first content whose parts are \<open>None\<close>.
\<close>

definition response_of :: "event list \<Rightarrow> pystr" where
  "response_of events =
     (if filter plain_text (stream_parts events) = [] then no_response
      else text_of (last (filter plain_text (stream_parts events))))"

definition outcome_of :: "event list \<Rightarrow> py_error + pystr" where
  "outcome_of events =
     (if list_ex parts_none events then Inl TypeError else Inr (response_of events))"








subsection \<open>Concrete inputs\<close>


definition fresh_sdk :: sdk where
  "fresh_sdk = \<lparr>sessions = [], submitted = []\<rparr>"





text \<open>The agent \<open>Agent(name="ProfileBot")\<close> as \<open>__init__\<close> leaves it, allocated at 1000.\<close>

definition profile_bot :: agent where
  "profile_bot =
     \<lparr>name = ascii ''ProfileBot'', model_name = ascii ''gemini-2.0-flash'',
      system_instruction = [], tools = [], session_created = False,
      user_id = ascii ''user_ProfileBot'', session_id = ascii ''session_ProfileBot_1000'',
      self_id = 1000\<rparr>"

definition seven :: "pystr \<Rightarrow> int" where
  "seven s = 7"

definition text_part :: "pystr \<Rightarrow> part" where
  "text_part t = \<lparr>part_function_call = None, part_text = Some t\<rparr>"

definition save_branch_call :: part where
  "save_branch_call =
     \<lparr>part_function_call = Some \<lparr>call_name = ascii ''save_branch'', call_args = []\<rparr>,
      part_text = None\<rparr>"

definition other_part :: part where
  "other_part = \<lparr>part_function_call = None, part_text = None\<rparr>"

definition event_of :: "part list \<Rightarrow> event" where
  "event_of ps = \<lparr>event_content = Some \<lparr>parts = Holds ps\<rparr>\<rparr>"

text \<open>
  A turn without text: an event without content, a tool call, an empty text, a
  content without the attribute.
\<close>

definition silent_events :: "event list" where
  "silent_events =
     [\<lparr>event_content = None\<rparr>, event_of [save_branch_call, text_part [], other_part],
      \<lparr>event_content = Some \<lparr>parts = Missing\<rparr>\<rparr>]"

text \<open>A turn with two texts, a tool call between them.\<close>

definition two_text_events :: "event list" where
  "two_text_events =
     [event_of [text_part (ascii ''Hello'')], event_of [save_branch_call],
      event_of [text_part (ascii '' world'')]]"

text \<open>The event \<open>Event(content=Content(role='model'))\<close>: its parts are \<open>None\<close>.\<close>

definition empty_content_event :: event where
  "empty_content_event = \<lparr>event_content = Some \<lparr>parts = Holds_None\<rparr>\<rparr>"

section \<open>Properties of the tools\<close>

subsection \<open>The profile dict\<close>

lemma dict_get_set: "dict_get (dict_set d k v) k' = (if k' = k then Some v else dict_get d k')"
  by (simp add: dict_get_def dict_set_def update_conv')

lemma has_key_get: "has_key d k \<longleftrightarrow> dict_get d k \<noteq> None"
  by (simp add: has_key_def dict_get_def map_of_eq_None_iff)

lemma projects_key:
  "ascii ''projects'' \<noteq> ascii ''branch''" "ascii ''projects'' \<noteq> ascii ''skills''"
  by (simp_all add: ascii_def)

lemma projects_of_empty: "projects_of [] = Some []"
  by (simp add: projects_of_def dict_get_def)

lemma save_project_appends:
  assumes "projects_of d = Some ps"
  shows "\<exists>out d'. save_project t x d = Inr (out, d')
           \<and> dict_get d' (ascii ''projects'') = Some (Projects (ps @ [\<lparr>title = t, desc = x\<rparr>]))
           \<and> projects_of d' = Some (ps @ [\<lparr>title = t, desc = x\<rparr>])"
proof (cases "dict_get d (ascii ''projects'')")
  case None
  with assms have "ps = []" by (simp add: projects_of_def)
  with None show ?thesis
    by (simp add: save_project_def projects_of_def has_key_get dict_get_set)
next
  case (Some v)
  with assms have "v = Projects ps"
    by (cases v) (simp_all add: projects_of_def)
  with Some show ?thesis
    by (simp add: save_project_def projects_of_def has_key_get dict_get_set)
qed

lemma save_skills_stores:
  "\<exists>out d'. save_skills db s d = Inr (out, d')
      \<and> dict_get d' (ascii ''skills'') = Some (StrList (map str_strip (str_split 44 s)))
      \<and> projects_of d' = projects_of d"
  by (simp add: save_skills_def Let_def dict_get_set projects_of_def projects_key)

lemma save_branch_projects: "projects_of (snd (save_branch b d)) = projects_of d"
  by (simp add: save_branch_def projects_of_def dict_get_set projects_key)

text \<open>
  C8. Saving skills twice leaves under \<open>'skills'\<close> the list made from the second string
  alone, whatever the profile held before; saving two projects appends both to the
  projects the profile had, in the order of the calls.
\<close>

theorem save_skills_replaces_save_project_appends:
  assumes "projects_of d = Some ps"
  shows "(\<exists>o1 d1 o2 d2.
            save_skills db s1 d = Inr (o1, d1) \<and> save_skills db s2 d1 = Inr (o2, d2)
            \<and> dict_get d2 (ascii ''skills'') = Some (StrList (map str_strip (str_split 44 s2))))
       \<and> (\<exists>o1 d1 o2 d2.
            save_project t1 x1 d = Inr (o1, d1) \<and> save_project t2 x2 d1 = Inr (o2, d2)
            \<and> dict_get d2 (ascii ''projects'')
                = Some (Projects (ps @ [\<lparr>title = t1, desc = x1\<rparr>, \<lparr>title = t2, desc = x2\<rparr>])))"
proof
  from save_skills_stores[of db s1 d] obtain o1 d1 where
    1: "save_skills db s1 d = Inr (o1, d1)" by blast
  from save_skills_stores[of db s2 d1] 1
  show "\<exists>o1 d1 o2 d2.
          save_skills db s1 d = Inr (o1, d1) \<and> save_skills db s2 d1 = Inr (o2, d2)
          \<and> dict_get d2 (ascii ''skills'') = Some (StrList (map str_strip (str_split 44 s2)))"
    by blast
next
  from save_project_appends[OF assms, of t1 x1] obtain o1 d1 where
    1: "save_project t1 x1 d = Inr (o1, d1)"
       "projects_of d1 = Some (ps @ [\<lparr>title = t1, desc = x1\<rparr>])" by blast
  from save_project_appends[OF 1(2), of t2 x2] 1(1)
  show "\<exists>o1 d1 o2 d2.
          save_project t1 x1 d = Inr (o1, d1) \<and> save_project t2 x2 d1 = Inr (o2, d2)
          \<and> dict_get d2 (ascii ''projects'')
              = Some (Projects (ps @ [\<lparr>title = t1, desc = x1\<rparr>, \<lparr>title = t2, desc = x2\<rparr>]))"
    by auto
qed

theorem save_skills_replaces_save_project_appends_witness:
  "projects_of [(ascii ''skills'', StrList [ascii ''C''])] = Some []
   \<and> (\<exists>o1 d1 o2 d2.
        save_skills ascii_db (ascii ''Python, SQL'') [(ascii ''skills'', StrList [ascii ''C''])]
          = Inr (o1, d1)
        \<and> save_skills ascii_db (ascii ''Go , Rust'') d1 = Inr (o2, d2)
        \<and> dict_get d2 (ascii ''skills'') = Some (StrList [ascii ''Go'', ascii ''Rust'']))
   \<and> (\<exists>o1 d1 o2 d2.
        save_project (ascii ''A'') (ascii ''first'') [(ascii ''skills'', StrList [ascii ''C''])]
          = Inr (o1, d1)
        \<and> save_project (ascii ''B'') (ascii ''second'') d1 = Inr (o2, d2)
        \<and> dict_get d2 (ascii ''projects'')
            = Some (Projects [\<lparr>title = ascii ''A'', desc = ascii ''first''\<rparr>,
                              \<lparr>title = ascii ''B'', desc = ascii ''second''\<rparr>]))"
proof -
  have h: "projects_of [(ascii ''skills'', StrList [ascii ''C''])] = Some []"
    by (simp add: projects_of_def dict_get_def ascii_def)
  have s: "map str_strip (str_split 44 (ascii ''Go , Rust'')) = [ascii ''Go'', ascii ''Rust'']"
    by (simp add: ascii_def str_strip_def isspace_def)
  from save_skills_replaces_save_project_appends[OF h,
      of ascii_db "ascii ''Python, SQL''" "ascii ''Go , Rust''"
         "ascii ''A''" "ascii ''first''" "ascii ''B''" "ascii ''second''"]
  show ?thesis using h by (simp add: s)
qed

subsection \<open>No tool raises\<close>

lemma call_tool_returns:
  assumes "projects_of d = Some ps"
  shows "\<exists>out d' ps'. call_tool db c d = Inr (out, d') \<and> projects_of d' = Some ps'"
proof (cases c)
  case (Call_save_branch b)
  then show ?thesis using assms save_branch_projects[of b d]
    by (cases "save_branch b d") auto
next
  case (Call_save_skills s)
  then show ?thesis using assms save_skills_stores[of db s d] by auto
next
  case (Call_save_project t x)
  then show ?thesis using save_project_appends[OF assms, of t x] by auto
qed (use assms in auto)

lemma call_tools_returns:
  assumes "projects_of d = Some ps"
  shows "\<exists>outs d' ps'. call_tools db cs d = Inr (outs, d') \<and> projects_of d' = Some ps'"
  using assms
proof (induction cs arbitrary: d ps)
  case Nil
  then show ?case by simp
next
  case (Cons c cs)
  from call_tool_returns[OF Cons.prems, of db c]
  obtain out d1 ps1 where 1: "call_tool db c d = Inr (out, d1)" "projects_of d1 = Some ps1"
    by blast
  from Cons.IH[OF 1(2)] obtain outs d2 ps2 where
    "call_tools db cs d1 = Inr (outs, d2)" "projects_of d2 = Some ps2" by blast
  with 1 show ?case by simp
qed

text \<open>
  C9. Every tool returns a string and raises nothing, whatever strings it is called
  with: on the profile any sequence of tool calls has built from the empty dict, every
  further call returns. (Every function is a terminating recursion over its argument
  strings.)
\<close>

theorem tools_never_raise:
  "\<exists>outs d out d'. call_tools db cs [] = Inr (outs, d) \<and> call_tool db c d = Inr (out, d')"
proof -
  from call_tools_returns[OF projects_of_empty, of db cs] obtain outs d ps where
    1: "call_tools db cs [] = Inr (outs, d)" "projects_of d = Some ps" by blast
  from call_tool_returns[OF 1(2), of db c] 1(1) show ?thesis by blast
qed

theorem tools_never_raise_witness:
  "\<exists>outs d out d'.
     call_tools ascii_db [Call_save_project (ascii ''A'') (ascii ''first''), Call_get_profile] []
       = Inr (outs, d)
     \<and> call_tool ascii_db (Call_save_project (ascii ''B'') (ascii ''second'')) d = Inr (out, d')"
  by (rule tools_never_raise)

subsection \<open>ReviewerBot's heuristics\<close>

text \<open>
  C6. \<open>analyze_project("X", "did stuff")\<close> returns the warning that lists the three
  deficiencies (too short, no action verb, no digit), and
  \<open>analyze_project("X", "Built a 50% faster caching layer serving 1000 users")\<close>
  returns the success string.
\<close>

theorem analyze_project_examples:
  "analyze_project db (ascii ''X'') (ascii ''did stuff'')
     = [9888, 65039]
       @ ascii '' Improvements needed: Too short - add more details, Use action verbs (built, developed, created), Add metrics/numbers (e.g., '50% faster', '1000 users')''
   \<and> analyze_project db (ascii ''X'')
        (ascii ''Built a 50% faster caching layer serving 1000 users'')
     = [9989] @ ascii '' Project description looks strong!''"
  by (simp add: analyze_project_def ascii_def str_lower_def ascii_lower_def action_verbs_def
        isdigit_def too_short_def no_action_verb_def no_metrics_def looks_strong_def)

theorem analyze_project_examples_witness:
  "analyze_project ascii_db (ascii ''X'') (ascii ''did stuff'')
     = [9888, 65039]
       @ ascii '' Improvements needed: Too short - add more details, Use action verbs (built, developed, created), Add metrics/numbers (e.g., '50% faster', '1000 users')''
   \<and> analyze_project ascii_db (ascii ''X'')
        (ascii ''Built a 50% faster caching layer serving 1000 users'')
     = [9989] @ ascii '' Project description looks strong!''"
  by (rule analyze_project_examples)

text \<open>
  C7. \<open>check_skill_demand("Python")\<close> and \<open>check_skill_demand("python")\<close> both match the
  hot-skill list, the first through lower-casing, and return the high-demand message;
  \<open>check_skill_demand("cobol")\<close> returns the generic suggestion.
\<close>

theorem check_skill_demand_examples:
  "str_lower db (ascii ''Python'') \<in> set HOT_SKILLS
   \<and> check_skill_demand db (ascii ''Python'')
       = [128293] @ ascii '' 'Python' is HIGH DEMAND in 2024-25!''
   \<and> check_skill_demand db (ascii ''python'')
       = [128293] @ ascii '' 'python' is HIGH DEMAND in 2024-25!''
   \<and> check_skill_demand db (ascii ''cobol'')
       = [39] @ ascii ''cobol' is useful but consider adding trending skills like Python, React, or AWS.''"
  by (simp add: check_skill_demand_def ascii_def str_lower_def ascii_lower_def HOT_SKILLS_def
        high_demand_def generic_suggestion_def)

theorem check_skill_demand_examples_witness:
  "str_lower ascii_db (ascii ''Python'') \<in> set HOT_SKILLS
   \<and> check_skill_demand ascii_db (ascii ''Python'')
       = [128293] @ ascii '' 'Python' is HIGH DEMAND in 2024-25!''
   \<and> check_skill_demand ascii_db (ascii ''python'')
       = [128293] @ ascii '' 'python' is HIGH DEMAND in 2024-25!''
   \<and> check_skill_demand ascii_db (ascii ''cobol'')
       = [39] @ ascii ''cobol' is useful but consider adding trending skills like Python, React, or AWS.''"
  by (rule check_skill_demand_examples)

text \<open>
  C10. \<open>check_skill_demand\<close> compares the whole lower-cased input with the eight
  entries: an input whose lower-cased form is none of them gets the generic suggestion
  and not the high-demand message, so a hot skill inside a longer string, or with a
  space after it, does not match.
\<close>

theorem check_skill_demand_exact_match:
  assumes "str_lower db skill \<notin> set HOT_SKILLS"
  shows "check_skill_demand db skill = generic_suggestion skill
         \<and> check_skill_demand db skill \<noteq> high_demand skill
         \<and> length HOT_SKILLS = 8"
  using assms
  by (simp add: check_skill_demand_def generic_suggestion_def high_demand_def HOT_SKILLS_def)

theorem check_skill_demand_exact_match_witness:
  "str_lower ascii_db (ascii ''python3'') \<notin> set HOT_SKILLS
   \<and> check_skill_demand ascii_db (ascii ''python3'') = generic_suggestion (ascii ''python3'')
   \<and> str_lower ascii_db (ascii ''python '') \<notin> set HOT_SKILLS
   \<and> check_skill_demand ascii_db (ascii ''python '') = generic_suggestion (ascii ''python '')
   \<and> str_lower ascii_db (ascii ''machine-learning'') \<notin> set HOT_SKILLS
   \<and> check_skill_demand ascii_db (ascii ''machine-learning'')
       = generic_suggestion (ascii ''machine-learning'')"
proof -
  have 1: "str_lower ascii_db (ascii ''python3'') \<notin> set HOT_SKILLS"
    by (simp add: str_lower_def ascii_def ascii_lower_def HOT_SKILLS_def)
  have 2: "str_lower ascii_db (ascii ''python '') \<notin> set HOT_SKILLS"
    by (simp add: str_lower_def ascii_def ascii_lower_def HOT_SKILLS_def)
  have 3: "str_lower ascii_db (ascii ''machine-learning'') \<notin> set HOT_SKILLS"
    by (simp add: str_lower_def ascii_def ascii_lower_def HOT_SKILLS_def)
  show ?thesis
    using 1 2 3 check_skill_demand_exact_match[OF 1] check_skill_demand_exact_match[OF 2]
      check_skill_demand_exact_match[OF 3]
    by simp
qed

section \<open>Properties of the agent\<close>

subsection \<open>What a turn returns\<close>

lemma on_part_plain: "plain_text p \<Longrightarrow> on_part fr p = text_of p"
  by (auto simp: plain_text_def text_bearing_def text_of_def on_part_def split: option.splits)

lemma on_part_other: "\<not> plain_text p \<Longrightarrow> on_part fr p = fr"
  by (auto simp: plain_text_def text_bearing_def text_of_def on_part_def split: option.splits)

lemma foldl_on_part:
  "foldl on_part fr ps =
     (if filter plain_text ps = [] then fr else text_of (last (filter plain_text ps)))"
proof (induction ps rule: rev_induct)
  case Nil
  then show ?case by simp
next
  case (snoc p ps)
  then show ?case by (simp add: on_part_plain on_part_other)
qed

lemma one_kind_plain: "one_kind p \<Longrightarrow> plain_text p = text_bearing p"
  by (auto simp: one_kind_def plain_text_def text_bearing_def text_of_def)

lemma one_kind_filter:
  "list_all one_kind ps \<Longrightarrow> filter plain_text ps = filter text_bearing ps"
  by (induction ps) (simp_all add: one_kind_plain)

lemma on_event_eq:
  "on_event fr ev =
     (if parts_none ev then Inl TypeError else Inr (foldl on_part fr (event_parts ev)))"
  by (simp add: on_event_def parts_none_def event_parts_def
        split: option.splits attribute.splits)

lemma on_events_eq:
  "on_events fr events =
     (if list_ex parts_none events then Inl TypeError
      else Inr (foldl on_part fr (stream_parts events)))"
  by (induction events arbitrary: fr) (simp_all add: on_event_eq stream_parts_def)

lemma final_response:
  "(case on_events [] events of
      Inl e \<Rightarrow> Inl e
    | Inr fr \<Rightarrow> Inr (if fr \<noteq> [] then fr else no_response))
     = outcome_of events"
proof (cases "filter plain_text (stream_parts events) = []")
  case True
  then show ?thesis
    by (simp add: on_events_eq foldl_on_part outcome_of_def response_of_def)
next
  case False
  then have "last (filter plain_text (stream_parts events))
               \<in> set (filter plain_text (stream_parts events))"
    by (rule last_in_set)
  then have "text_of (last (filter plain_text (stream_parts events))) \<noteq> []"
    by (simp add: plain_text_def text_bearing_def)
  with False show ?thesis
    by (simp add: on_events_eq foldl_on_part outcome_of_def response_of_def)
qed

lemma key_created: "session_key_of (a\<lparr>session_created := b\<rparr>) = session_key_of a"
  by (simp add: session_key_of_def)

text \<open>\<open>chat\<close> in one equation: the agent, the SDK state, and what it returns or raises.\<close>

lemma chat_eq:
  "chat a m evs sv =
     ((if session_created a then a else a\<lparr>session_created := True\<rparr>,
       run_async
         (if session_created a \<or> get_session sv (session_key_of a) \<noteq> None then sv
          else create_session sv (session_key_of a))
         (session_key_of a) m),
      outcome_of evs)"
  using final_response[of evs]
  by (cases "get_session sv (session_key_of a)")
     (simp_all add: chat_def run_agent_def ensure_session_async_def key_created Let_def)

text \<open>
  C2. When no part of the turn's event stream has a non-empty text, \<open>chat\<close> is to
  return exactly \<open>"No response generated."\<close>. The code does so unless the stream holds a
  content whose parts are \<open>None\<close>: such a stream has no text-bearing part either, and
  there the loop over \<open>event.content.parts\<close> raises TypeError, which \<open>chat\<close> does not
  catch. The loops over \<open>event.actions or []\<close> and \<open>action.function_calls or []\<close> of the
  same method guard against \<open>None\<close>; this one does not.
\<close>

theorem chat_without_text:
  assumes "filter text_bearing (stream_parts events) = []"
  shows "snd (chat a message events sv)
           = (if list_ex parts_none events then Inl TypeError
              else Inr (ascii ''No response generated.''))"
proof -
  from assms have "filter plain_text (stream_parts events) = []"
    by (auto simp: filter_empty_conv plain_text_def)
  then show ?thesis by (simp add: chat_eq outcome_of_def response_of_def no_response_def)
qed

theorem chat_without_text_witness:
  "filter text_bearing (stream_parts [empty_content_event]) = []
   \<and> snd (chat profile_bot (ascii ''hello'') [empty_content_event] fresh_sdk) = Inl TypeError
   \<and> filter text_bearing (stream_parts silent_events) = []
   \<and> snd (chat profile_bot (ascii ''hello'') silent_events fresh_sdk)
       = Inr (ascii ''No response generated.'')"
proof -
  have 1: "filter text_bearing (stream_parts [empty_content_event]) = []"
    by (simp add: empty_content_event_def stream_parts_def event_parts_def)
  have 2: "filter text_bearing (stream_parts silent_events) = []"
    by (simp add: silent_events_def stream_parts_def event_parts_def event_of_def
          save_branch_call_def text_part_def other_part_def text_bearing_def text_of_def)
  have 3: "list_ex parts_none [empty_content_event]"
    by (simp add: empty_content_event_def parts_none_def)
  have 4: "\<not> list_ex parts_none silent_events"
    by (simp add: silent_events_def parts_none_def event_of_def)
  from chat_without_text[OF 1, of profile_bot "ascii ''hello''" fresh_sdk]
    chat_without_text[OF 2, of profile_bot "ascii ''hello''" fresh_sdk] 1 2 3 4
  show ?thesis by simp
qed

text \<open>
  C3. When the turn's event stream has two or more text-bearing parts, \<open>chat\<close> is to
  return exactly the text of the last of them in stream order, which is not the
  concatenation of the texts. On the streams of the SDK, whose parts carry one kind
  of data, the code does so unless the stream holds a content whose parts are \<open>None\<close>,
  where it raises TypeError: the defect of C2.
\<close>

theorem chat_last_text:
  assumes "list_all one_kind (stream_parts events)"
    and "2 \<le> length (filter text_bearing (stream_parts events))"
  shows "snd (chat a message events sv)
           = (if list_ex parts_none events then Inl TypeError
              else Inr (text_of (last (filter text_bearing (stream_parts events)))))
         \<and> text_of (last (filter text_bearing (stream_parts events)))
             \<noteq> concat (map text_of (filter text_bearing (stream_parts events)))"
proof -
  let ?ts = "filter text_bearing (stream_parts events)"
  from assms(2) have ne: "?ts \<noteq> []" by auto
  then have r: "snd (chat a message events sv)
      = (if list_ex parts_none events then Inl TypeError else Inr (text_of (last ?ts)))"
    by (simp add: chat_eq outcome_of_def response_of_def one_kind_filter[OF assms(1)])
  from ne obtain us t where ts: "?ts = us @ [t]"
    by (cases ?ts rule: rev_cases) auto
  with assms(2) have "us \<noteq> []" by auto
  then obtain u where u: "u \<in> set us" by (cases us) auto
  with ts have "u \<in> set ?ts" by simp
  then have "text_of u \<noteq> []" by (simp add: text_bearing_def)
  with u have "concat (map text_of us) \<noteq> []" by auto
  then have "length (concat (map text_of ?ts)) \<noteq> length (text_of (last ?ts))"
    unfolding ts by simp
  then have "concat (map text_of ?ts) \<noteq> text_of (last ?ts)" by auto
  with r show ?thesis by simp
qed

theorem chat_last_text_witness:
  "list_all one_kind (stream_parts (two_text_events @ [empty_content_event]))
   \<and> 2 \<le> length (filter text_bearing (stream_parts (two_text_events @ [empty_content_event])))
   \<and> snd (chat profile_bot (ascii ''hello'') (two_text_events @ [empty_content_event]) fresh_sdk)
       = Inl TypeError
   \<and> list_all one_kind (stream_parts two_text_events)
   \<and> 2 \<le> length (filter text_bearing (stream_parts two_text_events))
   \<and> snd (chat profile_bot (ascii ''hello'') two_text_events fresh_sdk)
       = Inr (ascii '' world'')
   \<and> concat (map text_of (filter text_bearing (stream_parts two_text_events)))
       = ascii ''Hello world''"
proof -
  have p: "stream_parts two_text_events
             = [text_part (ascii ''Hello''), save_branch_call, text_part (ascii '' world'')]"
    by (simp add: two_text_events_def stream_parts_def event_parts_def event_of_def)
  have q: "stream_parts (two_text_events @ [empty_content_event]) = stream_parts two_text_events"
    by (simp add: stream_parts_def event_parts_def empty_content_event_def)
  have f: "filter text_bearing (stream_parts two_text_events)
             = [text_part (ascii ''Hello''), text_part (ascii '' world'')]"
    by (simp add: p save_branch_call_def text_part_def text_bearing_def text_of_def ascii_def)
  have k: "list_all one_kind (stream_parts two_text_events)"
    by (simp add: p one_kind_def save_branch_call_def text_part_def)
  have 1: "2 \<le> length (filter text_bearing (stream_parts two_text_events))"
    by (simp add: f)
  have k2: "list_all one_kind (stream_parts (two_text_events @ [empty_content_event]))"
    using k by (simp only: q)
  have 2: "2 \<le> length (filter text_bearing
                         (stream_parts (two_text_events @ [empty_content_event])))"
    using 1 by (simp only: q)
  have 3: "list_ex parts_none (two_text_events @ [empty_content_event])"
    by (simp add: empty_content_event_def parts_none_def)
  have 4: "\<not> list_ex parts_none two_text_events"
    by (simp add: two_text_events_def parts_none_def event_of_def)
  from chat_last_text[OF k 1, of profile_bot "ascii ''hello''" fresh_sdk]
    chat_last_text[OF k2 2, of profile_bot "ascii ''hello''" fresh_sdk] k k2 1 2 3 4
  show ?thesis by (simp add: f text_of_def text_part_def ascii_def)
qed

subsection \<open>The session a turn addresses\<close>

lemma chat_session_id: "session_id (fst (fst (chat a m evs sv))) = session_id a"
  by (simp add: chat_eq)

lemma chat_key: "session_key_of (fst (fst (chat a m evs sv))) = session_key_of a"
  by (simp add: chat_eq key_created)

lemma chat_submitted:
  "submitted (snd (fst (chat a m evs sv))) = submitted sv @ [(session_key_of a, m)]"
  by (simp add: chat_eq run_async_def create_session_def)

lemma chat_sessions:
  "\<not> session_created a \<Longrightarrow> session_key_of a \<in> set (sessions (snd (fst (chat a m evs sv))))"
  by (auto simp: chat_eq run_async_def create_session_def get_session_def find_None_iff)

lemma find_member: "k \<in> set xs \<Longrightarrow> find (\<lambda>k'. k' = k) xs = Some k"
  by (induction xs) auto

text \<open>
  C4. \<open>chat\<close> leaves the session identifier of the agent as it is, so two calls in a row
  address the same session: the runner gets both messages under the same key.
\<close>

theorem chat_twice_same_session:
  assumes "chat a m1 e1 sv = ((a1, sv1), r1)" and "chat a1 m2 e2 sv1 = ((a2, sv2), r2)"
  shows "session_id a1 = session_id a \<and> session_id a2 = session_id a
         \<and> submitted sv2 = submitted sv @ [(session_key_of a, m1), (session_key_of a, m2)]"
proof -
  from assms(1) have 1: "a1 = fst (fst (chat a m1 e1 sv))" "sv1 = snd (fst (chat a m1 e1 sv))"
    by simp_all
  from assms(2) have 2: "a2 = fst (fst (chat a1 m2 e2 sv1))" "sv2 = snd (fst (chat a1 m2 e2 sv1))"
    by simp_all
  have k1: "session_key_of a1 = session_key_of a" unfolding 1 by (rule chat_key)
  have "session_id a1 = session_id a" unfolding 1 by (rule chat_session_id)
  moreover have "session_id a2 = session_id a1" unfolding 2 by (rule chat_session_id)
  moreover have "submitted sv2
      = (submitted sv @ [(session_key_of a, m1)]) @ [(session_key_of a1, m2)]"
    unfolding 2(2) chat_submitted unfolding 1(2) chat_submitted ..
  ultimately show ?thesis using k1 by simp
qed

theorem chat_twice_same_session_witness:
  "\<exists>a1 sv1 r1 a2 sv2 r2.
     chat profile_bot (ascii ''hi'') two_text_events fresh_sdk = ((a1, sv1), r1)
     \<and> chat a1 (ascii ''again'') silent_events sv1 = ((a2, sv2), r2)
     \<and> session_id a1 = ascii ''session_ProfileBot_1000''
     \<and> session_id a2 = ascii ''session_ProfileBot_1000''
     \<and> map (\<lambda>(k, m). snd (snd k)) (submitted sv2)
         = [ascii ''session_ProfileBot_1000'', ascii ''session_ProfileBot_1000'']"
proof -
  obtain a1 sv1 r1 where 1:
    "chat profile_bot (ascii ''hi'') two_text_events fresh_sdk = ((a1, sv1), r1)"
    by (metis surj_pair)
  obtain a2 sv2 r2 where 2: "chat a1 (ascii ''again'') silent_events sv1 = ((a2, sv2), r2)"
    by (metis surj_pair)
  from chat_twice_same_session[OF 1 2]
  have "session_id a1 = ascii ''session_ProfileBot_1000''"
    "session_id a2 = ascii ''session_ProfileBot_1000''"
    "map (\<lambda>(k, m). snd (snd k)) (submitted sv2)
       = [ascii ''session_ProfileBot_1000'', ascii ''session_ProfileBot_1000'']"
    by (simp_all add: profile_bot_def fresh_sdk_def session_key_of_def)
  with 1 2 show ?thesis
    by (intro exI[of _ a1] exI[of _ sv1] exI[of _ r1] exI[of _ a2] exI[of _ sv2] exI[of _ r2])
       simp
qed

lemma key_clear_memory:
  "session_key_of (clear_memory h (fst (fst (chat (clear_memory h a) m evs sv))))
     = session_key_of (clear_memory h a)"
  by (simp add: chat_eq clear_memory_def session_key_of_def)

text \<open>The first \<open>clear_memory\<close> of an agent does leave the identifier \<open>__init__\<close> gave it.\<close>

lemma first_clear_memory:
  "session_id (clear_memory h a)
     \<noteq> ascii ''session_'' @ name a @ ascii ''_'' @ str_nat (self_id a)"
  by (simp add: clear_memory_def ascii_def)

text \<open>
  C1. The claim is that a turn after \<open>clear_memory\<close> uses a session identifier no
  earlier turn of the agent used. The code does not do that from the second
  \<open>clear_memory\<close> on: the new identifier is made of the name, \<open>id(self)\<close> and a hash of
  \<open>id(self)\<close>, none of which changes, so every \<open>clear_memory\<close> gives the same
  identifier. The turn after a second \<open>clear_memory\<close> finds the session of the turn
  after the first one in the service, creates none, and submits its message to it.
\<close>

theorem clear_memory_twice_same_session:
  assumes "chat (clear_memory hash a) m1 e1 sv = ((a1, sv1), r1)"
    and "chat (clear_memory hash a1) m2 e2 sv1 = ((a2, sv2), r2)"
  shows "session_id (clear_memory hash a1) = session_id (clear_memory hash a)
         \<and> get_session sv1 (session_key_of (clear_memory hash a1))
             = Some (session_key_of (clear_memory hash a))
         \<and> sessions sv2 = sessions sv1
         \<and> submitted sv2
             = submitted sv @ [(session_key_of (clear_memory hash a), m1),
                               (session_key_of (clear_memory hash a), m2)]"
proof -
  let ?b = "clear_memory hash a"
  from assms(1) have 1: "a1 = fst (fst (chat ?b m1 e1 sv))" "sv1 = snd (fst (chat ?b m1 e1 sv))"
    by simp_all
  from assms(2) have 2: "sv2 = snd (fst (chat (clear_memory hash a1) m2 e2 sv1))" by simp
  have k: "session_key_of (clear_memory hash a1) = session_key_of ?b"
    unfolding 1 by (rule key_clear_memory)
  then have "session_id (clear_memory hash a1) = session_id ?b"
    by (simp add: session_key_of_def)
  moreover have nc: "\<not> session_created ?b" by (simp add: clear_memory_def)
  have "session_key_of ?b \<in> set (sessions sv1)" unfolding 1 using nc by (rule chat_sessions)
  then have g: "get_session sv1 (session_key_of ?b) = Some (session_key_of ?b)"
    by (simp add: get_session_def find_member)
  moreover have "sessions sv2 = sessions sv1"
    unfolding 2 using g k by (simp add: chat_eq run_async_def)
  moreover have "submitted sv2
      = (submitted sv @ [(session_key_of ?b, m1)]) @ [(session_key_of (clear_memory hash a1), m2)]"
    unfolding 2 chat_submitted unfolding 1(2) chat_submitted ..
  ultimately show ?thesis using k by simp
qed

theorem clear_memory_twice_same_session_witness:
  "\<exists>a1 sv1 r1 a2 sv2 r2.
     chat (clear_memory seven profile_bot) (ascii ''hi'') two_text_events fresh_sdk
       = ((a1, sv1), r1)
     \<and> chat (clear_memory seven a1) (ascii ''again'') silent_events sv1 = ((a2, sv2), r2)
     \<and> session_id (clear_memory seven profile_bot) = ascii ''session_ProfileBot_1000_7''
     \<and> session_id (clear_memory seven a1) = ascii ''session_ProfileBot_1000_7''
     \<and> map (\<lambda>(k, m). (snd (snd k), m)) (submitted sv2)
         = [(ascii ''session_ProfileBot_1000_7'', ascii ''hi''),
            (ascii ''session_ProfileBot_1000_7'', ascii ''again'')]"
proof -
  obtain a1 sv1 r1 where 1:
    "chat (clear_memory seven profile_bot) (ascii ''hi'') two_text_events fresh_sdk
       = ((a1, sv1), r1)"
    by (metis surj_pair)
  obtain a2 sv2 r2 where 2:
    "chat (clear_memory seven a1) (ascii ''again'') silent_events sv1 = ((a2, sv2), r2)"
    by (metis surj_pair)
  have s: "session_id (clear_memory seven profile_bot) = ascii ''session_ProfileBot_1000_7''"
    by (simp add: clear_memory_def profile_bot_def seven_def str_int_def ascii_def)
  from clear_memory_twice_same_session[OF 1 2] s
  have "session_id (clear_memory seven a1) = ascii ''session_ProfileBot_1000_7''"
    "map (\<lambda>(k, m). (snd (snd k), m)) (submitted sv2)
       = [(ascii ''session_ProfileBot_1000_7'', ascii ''hi''),
          (ascii ''session_ProfileBot_1000_7'', ascii ''again'')]"
    by (simp_all add: fresh_sdk_def session_key_of_def)
  with 1 2 s show ?thesis
    by (intro exI[of _ a1] exI[of _ sv1] exI[of _ r1] exI[of _ a2] exI[of _ sv2] exI[of _ r2])
       simp
qed

subsection \<open>Constructing an agent\<close>















lemma location_key:
  "ascii ''GOOGLE_CLOUD_LOCATION'' \<noteq> ascii ''GOOGLE_APPLICATION_CREDENTIALS''"
  by (simp add: ascii_def)

lemma location_after_credentials:
  "(env(ascii ''GOOGLE_APPLICATION_CREDENTIALS'' \<mapsto> f)) (ascii ''GOOGLE_CLOUD_LOCATION'')
     = env (ascii ''GOOGLE_CLOUD_LOCATION'')"
  by (simp add: location_key)









end
